theory Spec2Isabelle
  imports Complex_Main
begin

section \<open>The spaced-repetition engine of vocabulary-master-pwa\<close>

text \<open>
  A shallow embedding of \<^verbatim>\<open>src/services/spacedRepetition.ts\<close> (class
  \<^verbatim>\<open>SpacedRepetitionService\<close>).

  Modelling conventions.
  \<^item> A JavaScript \<^verbatim>\<open>number\<close> is a \<^typ>\<open>real\<close>: arithmetic is exact, and the
    values \<^verbatim>\<open>NaN\<close>, \<^verbatim>\<open>Infinity\<close> and the rounding error of IEEE doubles are not
    represented. Where the source divides by a value that can be zero
    (\<^verbatim>\<open>estimateTimeToMastery\<close>) the quotient is a \<open>jsnum\<close>, which has the infinities.
  \<^item> \<^verbatim>\<open>Math.round\<close> and \<^verbatim>\<open>Math.floor\<close> of a finite number return an \<^typ>\<open>int\<close>.
  \<^item> A \<^verbatim>\<open>Date\<close> object is its time value, the milliseconds since the epoch in UTC, or
    \<open>None\<close> for the invalid date (time value \<^verbatim>\<open>NaN\<close>). \<^verbatim>\<open>setDate\<close> works on the
    host's local calendar, so the host's time zone is a parameter: the function
    \<^verbatim>\<open>LocalTZA(t, isUTC)\<close> of ECMAScript, the offset of local time from UTC. An ISO
    date string that the engine reads or writes is the time value it denotes, and the
    empty string (the only string that is falsy) is \<open>None\<close>.
  \<^item> What \<^verbatim>\<open>calculateNextReview\<close> takes from its host is an \<open>Env\<close>: the time zone, the
    three readings of the clock \<^verbatim>\<open>new Date()\<close> that one call makes, in the order it makes
    them, and the sample of \<^verbatim>\<open>Math.random()\<close>, which the source draws from \<open>[0, 1)\<close>.
    The functions that read the clock for their result only (\<^verbatim>\<open>initializeCard\<close>,
    \<^verbatim>\<open>resetCardProgress\<close>, \<^verbatim>\<open>getReviewPriority\<close>) take the instant \<open>now\<close>.
\<close>

subsection \<open>Numbers and dates\<close>

type_synonym timestamp = real

definition Math_round :: "real \<Rightarrow> int" where
  \<comment> \<open>\<^verbatim>\<open>Math.round\<close>: the nearest integer, a tie going up.\<close>
  "Math_round x = \<lfloor>x + 1 / 2\<rfloor>"

definition Math_floor :: "real \<Rightarrow> int" where
  "Math_floor x = \<lfloor>x\<rfloor>"

definition toFixed2 :: "real \<Rightarrow> real" where
  \<comment> \<open>\<^verbatim>\<open>parseFloat(x.toFixed(2))\<close> for \<open>x \<ge> 0\<close> (a clamped ease factor is): the nearest
      multiple of \<open>0.01\<close>, the larger one on a tie.\<close>
  "toFixed2 x = real_of_int \<lfloor>x * 100 + 1 / 2\<rfloor> / 100"

definition msPerDay :: real where
  "msPerDay = 1000 * 60 * 60 * 24"

type_synonym Date = "timestamp option"

type_synonym TimeZone = "timestamp \<Rightarrow> bool \<Rightarrow> real"

definition TimeClip :: "real \<Rightarrow> Date" where
  \<comment> \<open>ECMAScript \<^verbatim>\<open>TimeClip\<close>: a time value beyond \<open>8.64e15\<close> ms is \<^verbatim>\<open>NaN\<close>. (Time values
      are whole numbers of milliseconds, which its truncation leaves as they are.)\<close>
  "TimeClip t = (if \<bar>t\<bar> > 8640000000000000 then None else Some t)"

definition LocalTime :: "TimeZone \<Rightarrow> timestamp \<Rightarrow> real" where
  \<comment> \<open>ECMAScript \<^verbatim>\<open>LocalTime(t) = t + LocalTZA(t, true)\<close>.\<close>
  "LocalTime tz t = t + tz t True"

definition UTC :: "TimeZone \<Rightarrow> real \<Rightarrow> real" where
  \<comment> \<open>ECMAScript \<^verbatim>\<open>UTC(t) = t - LocalTZA(t, false)\<close>.\<close>
  "UTC tz t = t - tz t False"

definition addDays :: "TimeZone \<Rightarrow> Date \<Rightarrow> int \<Rightarrow> Date" where
  \<comment> \<open>\<^verbatim>\<open>d.setDate(d.getDate() + n)\<close> for a whole number \<open>n\<close>: the local time of \<open>d\<close> moved
      by \<open>n\<close> calendar days (\<^verbatim>\<open>MakeDate(MakeDay(year, month, date + n), TimeWithinDay)\<close>),
      read back as UTC and clipped. An invalid date stays invalid.\<close>
  "addDays tz d n =
     (case d of
        None \<Rightarrow> None
      | Some t \<Rightarrow> TimeClip (UTC tz (LocalTime tz t + real_of_int n * msPerDay)))"

definition dateLess :: "Date \<Rightarrow> Date \<Rightarrow> bool" where
  \<comment> \<open>\<^verbatim>\<open>a < b\<close> on two \<^verbatim>\<open>Date\<close> objects: false when either time value is \<^verbatim>\<open>NaN\<close>.\<close>
  "dateLess a b =
     (case a of
        None \<Rightarrow> False
      | Some x \<Rightarrow> (case b of None \<Rightarrow> False | Some y \<Rightarrow> x < y))"

subsection \<open>The data model (\<^verbatim>\<open>src/types/vocabulary.ts\<close>)\<close>

datatype difficulty = Beginner | Intermediate | Advanced | Master

text \<open>
  \<^verbatim>\<open>VocabularyWord\<close> is split in two: \<open>WordData\<close> holds the fields that are not
  scheduling state (the type \<^verbatim>\<open>Omit<VocabularyWord, 'interval' | ...>\<close> that
  \<^verbatim>\<open>initializeCard\<close> takes), and \<open>Scheduling\<close> holds the six scheduling fields (the type
  \<^verbatim>\<open>Pick<VocabularyWord, 'interval' | ...>\<close> that \<^verbatim>\<open>calculateNextReview\<close> returns).
  A \<open>VocabularyWord\<close> is a \<open>WordData\<close> extended by a \<open>Scheduling\<close>; the field
  \<^verbatim>\<open>card.interval\<close> reads \<open>interval (more card)\<close>. An optional field is an \<open>option\<close>.
\<close>

text \<open>
  \<^verbatim>\<open>estimateTimeToMastery\<close> divides by values that can be zero, where JavaScript
  yields an infinity or \<^verbatim>\<open>NaN\<close> and goes on. Its quotients, and the two fields it
  returns, are therefore values of \<open>jsnum\<close>. The zero divisors that arise are positive
  zeros (a product of non-negative factors).
\<close>

datatype jsnum = Finite real | PosInfinity | NegInfinity | NaN

record MasteryEstimate =
  days :: jsnum
  reviews :: jsnum

record Env =
  tza :: TimeZone
  clock1 :: timestamp
  clock2 :: timestamp
  clock3 :: timestamp
  mathRandom :: real

record Scheduling =
  interval :: real
  easeFactor :: real
  reviewCount :: real
  masteryScore :: real
  nextReviewAt :: "timestamp option"
  lastReviewedAt :: "timestamp option"

record WordData =
  id' :: string
  word :: string
  definition' :: string
  translation :: "string option"
  phonetic :: "string option"
  audioUrl :: "string option"
  difficulty :: difficulty
  category :: "string option"
  tags :: "string list option"
  customTags :: "string list option"
  examples :: "string list"
  synonyms :: "string list option"
  antonyms :: "string list option"
  usageNotes :: "string list option"
  createdAt :: string
  modifiedAt :: "string option"
  personalNote :: "string option"
  favorite :: "bool option"
  difficultyOverride :: "real option"
  confidenceLevel :: "real option"

type_synonym VocabularyWord = "Scheduling WordData_scheme"

datatype error = Error string | RangeError string

definition toISOString :: "Date \<Rightarrow> error + timestamp" where
  \<comment> \<open>\<^verbatim>\<open>d.toISOString()\<close> throws a \<^verbatim>\<open>RangeError\<close> on the invalid date.\<close>
  "toISOString d =
     (case d of None \<Rightarrow> Inl (RangeError ''Invalid time value'') | Some t \<Rightarrow> Inr t)"

subsection \<open>Constants of the service\<close>

definition MIN_EASE_FACTOR :: real where
  "MIN_EASE_FACTOR = 1.3"

definition MAX_EASE_FACTOR :: real where
  "MAX_EASE_FACTOR = 2.5"

definition INITIAL_EASE_FACTOR :: real where
  "INITIAL_EASE_FACTOR = 2.5"

definition MASTERY_INCREMENT :: real where
  "MASTERY_INCREMENT = 20"

subsection \<open>\<^verbatim>\<open>calculateNextReview\<close> and its helpers\<close>

definition calculateEaseFactorChange :: "real \<Rightarrow> real" where
  "calculateEaseFactorChange quality =
     (if quality = 5 then 0.15
      else if quality = 4 then 0.10
      else if quality = 3 then 0.05
      else if quality = 2 then - 0.15
      else if quality = 1 then - 0.25
      else if quality = 0 then - 0.30
      else 0)"

definition clampEaseFactor :: "real \<Rightarrow> real" where
  "clampEaseFactor e = max MIN_EASE_FACTOR (min MAX_EASE_FACTOR e)"

definition calculateMasteryIncrement :: "real \<Rightarrow> real \<Rightarrow> real" where
  "calculateMasteryIncrement quality currentMastery =
     (if quality < 3 then
        (let penaltyMultiplier = max 0.3 (1 - (currentMastery / 100))
         in - MASTERY_INCREMENT * penaltyMultiplier)
      else
        (let increment = MASTERY_INCREMENT * (quality / 5);
             difficultyFactor = 1 - (currentMastery / 100) * 0.7
         in increment * difficultyFactor))"

definition finalVariation :: "int \<Rightarrow> real \<Rightarrow> int" where
  \<comment> \<open>The local \<^verbatim>\<open>finalVariation\<close> of \<^verbatim>\<open>calculateNextReviewDate\<close>: the jitter in days.\<close>
  "finalVariation intervalDays u =
     (let randomVariation = u * 0.2 - 0.1;
          variationDays = Math_round (real_of_int intervalDays * randomVariation);
          maxVariation = min \<bar>variationDays\<bar> 1
      in if variationDays \<ge> 0 then maxVariation else - maxVariation)"

definition jitteredDate :: "Env \<Rightarrow> int \<Rightarrow> Date" where
  \<comment> \<open>The local \<^verbatim>\<open>baseDate\<close> of \<^verbatim>\<open>calculateNextReviewDate\<close> after its two \<^verbatim>\<open>setDate\<close>
      calls: the first clock reading, plus the interval, plus the jitter.\<close>
  "jitteredDate env intervalDays =
     (let baseDate = Some (clock1 env);
          baseDate = addDays (tza env) baseDate intervalDays
      in addDays (tza env) baseDate (finalVariation intervalDays (mathRandom env)))"

definition tomorrowDate :: "Env \<Rightarrow> Date" where
  \<comment> \<open>The local \<^verbatim>\<open>tomorrow\<close> of \<^verbatim>\<open>calculateNextReviewDate\<close>: the second clock reading
      plus one day.\<close>
  "tomorrowDate env = addDays (tza env) (Some (clock2 env)) 1"

definition calculateNextReviewDate :: "Env \<Rightarrow> int \<Rightarrow> Date" where
  "calculateNextReviewDate env intervalDays =
     (let baseDate = jitteredDate env intervalDays;
          tomorrow = tomorrowDate env
      in if dateLess baseDate tomorrow then tomorrow else baseDate)"

definition newIntervalOf :: "VocabularyWord \<Rightarrow> real \<Rightarrow> int" where
  \<comment> \<open>The variable \<^verbatim>\<open>newInterval\<close> of \<^verbatim>\<open>calculateNextReview\<close> (the SM-2 branch).\<close>
  "newIntervalOf currentCard quality =
     (if quality < 3 then 1
      else if reviewCount (more currentCard) = 0 then 1
      else if reviewCount (more currentCard) = 1 then 6
      else Math_round (interval (more currentCard) * easeFactor (more currentCard)))"

definition newReviewCountOf :: "VocabularyWord \<Rightarrow> real \<Rightarrow> real" where
  \<comment> \<open>The variable \<^verbatim>\<open>newReviewCount\<close> of \<^verbatim>\<open>calculateNextReview\<close>.\<close>
  "newReviewCountOf currentCard quality =
     (if quality < 3 then 0 else reviewCount (more currentCard) + 1)"

definition calculateNextReview ::
  "Env \<Rightarrow> VocabularyWord \<Rightarrow> real \<Rightarrow> error + Scheduling" where
  "calculateNextReview env card' quality =
     (if quality < 0 \<or> quality > 5 then
        Inl (Error ''Quality rating must be between 0 and 5'')
      else if masteryScore (more card') < 0 \<or> masteryScore (more card') > 100 then
        Inl (Error ''Mastery score must be between 0 and 100'')
      else
        (let currentCard = card';
             newInterval = newIntervalOf currentCard quality;
             newReviewCount = newReviewCountOf currentCard quality;
             easeFactorChange = calculateEaseFactorChange quality;
             newEaseFactor = easeFactor (more currentCard) + easeFactorChange;
             newEaseFactor = clampEaseFactor newEaseFactor;
             masteryIncrement =
               calculateMasteryIncrement quality (masteryScore (more currentCard));
             newMasteryScore =
               min 100 (max 0 (masteryScore (more currentCard) + masteryIncrement));
             nextReviewAt = calculateNextReviewDate env newInterval
         in case toISOString nextReviewAt of
              Inl e \<Rightarrow> Inl e
            | Inr isoString \<Rightarrow>
                Inr \<lparr> interval = real_of_int newInterval,
                      easeFactor = toFixed2 newEaseFactor,
                      reviewCount = newReviewCount,
                      masteryScore = real_of_int (Math_round newMasteryScore),
                      nextReviewAt = Some isoString,
                      lastReviewedAt = Some (clock3 env) \<rparr>))"

subsection \<open>Initialisation and reset\<close>

definition initialScheduling :: "timestamp \<Rightarrow> Scheduling" where
  \<comment> \<open>The six fields that \<^verbatim>\<open>initializeCard\<close> and \<^verbatim>\<open>resetCardProgress\<close> both write.\<close>
  "initialScheduling now =
     \<lparr> interval = 1,
       easeFactor = INITIAL_EASE_FACTOR,
       reviewCount = 0,
       masteryScore = 0,
       nextReviewAt = Some now,
       lastReviewedAt = Some now \<rparr>"

definition initializeCard :: "timestamp \<Rightarrow> WordData \<Rightarrow> VocabularyWord" where
  "initializeCard now card' = WordData.extend card' (initialScheduling now)"

definition resetCardProgress :: "timestamp \<Rightarrow> VocabularyWord \<Rightarrow> VocabularyWord" where
  "resetCardProgress now card' = card'\<lparr> more := initialScheduling now \<rparr>"

definition mergeUpdate :: "VocabularyWord \<Rightarrow> Scheduling \<Rightarrow> VocabularyWord" where
  \<comment> \<open>\<^verbatim>\<open>{ ...state.currentCard, ...updatedStats }\<close> in \<^verbatim>\<open>submitAnswer\<close> of
      \<^verbatim>\<open>src/store/index.ts\<close>: the caller writes the returned fields onto the card.\<close>
  "mergeUpdate card' updatedStats = card'\<lparr> more := updatedStats \<rparr>"

subsection \<open>\<^verbatim>\<open>getReviewPriority\<close>\<close>






subsection \<open>\<^verbatim>\<open>calculateDailyGoal\<close>\<close>

definition calculateDailyGoal :: "real \<Rightarrow> real \<Rightarrow> real \<Rightarrow> real \<Rightarrow> real \<Rightarrow> int" where
  \<comment> \<open>\<^verbatim>\<open>averageStudyTime || 30\<close> replaces a zero divisor by \<open>30\<close>.\<close>
  "calculateDailyGoal totalWords dueWords averageStudyTime availableTime averageAccuracy =
     (if totalWords = 0 then 20
      else
        (let baseGoal = min dueWords 50;
             timeBasedGoal =
               Math_floor ((availableTime * 60)
                 / (if averageStudyTime = 0 then 30 else averageStudyTime));
             performanceMultiplier = 0.5 + (averageAccuracy / 100) * 0.5;
             totalWordsFactor = min (log 10 (totalWords + 1)) 2;
             recommended =
               min (max 10
                     (Math_round
                        ((baseGoal * 0.4 + real_of_int timeBasedGoal * 0.3
                            + totalWordsFactor * 15)
                          * performanceMultiplier)))
                   100
         in recommended))"

subsection \<open>\<^verbatim>\<open>estimateTimeToMastery\<close>\<close>

definition js_div :: "real \<Rightarrow> real \<Rightarrow> jsnum" where
  \<comment> \<open>\<^verbatim>\<open>x / y\<close> on finite numbers.\<close>
  "js_div x y =
     (if y \<noteq> 0 then Finite (x / y)
      else if x > 0 then PosInfinity
      else if x < 0 then NegInfinity
      else NaN)"

definition jsnum_div :: "jsnum \<Rightarrow> real \<Rightarrow> jsnum" where
  \<comment> \<open>\<^verbatim>\<open>a / y\<close> where \<open>a\<close> may be infinite and \<open>y\<close> is finite.\<close>
  "jsnum_div a y =
     (case a of
        Finite x \<Rightarrow> js_div x y
      | PosInfinity \<Rightarrow> if y \<ge> 0 then PosInfinity else NegInfinity
      | NegInfinity \<Rightarrow> if y \<ge> 0 then NegInfinity else PosInfinity
      | NaN \<Rightarrow> NaN)"

definition Math_ceil :: "jsnum \<Rightarrow> jsnum" where
  "Math_ceil a = (case a of Finite x \<Rightarrow> Finite (real_of_int \<lceil>x\<rceil>) | _ \<Rightarrow> a)"

definition isFinite :: "jsnum \<Rightarrow> bool" where
  \<comment> \<open>\<^verbatim>\<open>Number.isFinite\<close>.\<close>
  "isFinite a = (case a of Finite x \<Rightarrow> True | _ \<Rightarrow> False)"

definition estimateTimeToMastery :: "real \<Rightarrow> real \<Rightarrow> real \<Rightarrow> MasteryEstimate" where
  "estimateTimeToMastery currentMastery averageAccuracy reviewsPerDay =
     (if currentMastery \<ge> 95 then \<lparr> days = Finite 0, reviews = Finite 0 \<rparr>
      else
        (let pointsNeeded = 100 - currentMastery;
             averageGainPerReview = (averageAccuracy / 100) * 15;
             diminishingFactor = 1 - (currentMastery / 100) * 0.5;
             reviewsNeeded =
               Math_ceil (js_div pointsNeeded (averageGainPerReview * diminishingFactor));
             daysNeeded = Math_ceil (jsnum_div reviewsNeeded reviewsPerDay)
         in \<lparr> days = daysNeeded, reviews = reviewsNeeded \<rparr>))"

subsection \<open>The specification's wording, and an example card\<close>

definition spec_qualityValid :: "real \<Rightarrow> bool" where
  \<comment> \<open>"quality is an integer in \<open>[0, 5]\<close>".\<close>
  "spec_qualityValid quality =
     (real_of_int \<lfloor>quality\<rfloor> = quality \<and> 0 \<le> quality \<and> quality \<le> 5)"

definition spec_storedMastery :: "real \<Rightarrow> real" where
  \<comment> \<open>"clamp to \<open>[0, 100]\<close> and round to the nearest integer for storage".\<close>
  "spec_storedMastery x = real_of_int (round (max 0 (min 100 x)))"

definition exampleData :: WordData where
  "exampleData =
     \<lparr> id' = ''1'', word = ''ephemeral'', definition' = ''lasting a short time'',
       translation = None, phonetic = None, audioUrl = None, difficulty = Intermediate,
       category = None, tags = Some [''adjective''], customTags = None, examples = [],
       synonyms = None, antonyms = None, usageNotes = None,
       createdAt = ''2024-01-01T00:00:00.000Z'', modifiedAt = None, personalNote = None,
       favorite = None, difficultyOverride = None, confidenceLevel = None \<rparr>"

definition exampleCard :: VocabularyWord where
  \<comment> \<open>The card of the specification's end-to-end example, due at time \<open>0\<close>.\<close>
  "exampleCard =
     WordData.extend exampleData
       \<lparr> interval = 6, easeFactor = 2.5, reviewCount = 1, masteryScore = 40,
         nextReviewAt = Some 0, lastReviewedAt = Some 0 \<rparr>"

definition isInvalidInput :: "error + Scheduling \<Rightarrow> bool" where
  \<comment> \<open>The call failed with one of the two validation errors (a plain \<^verbatim>\<open>Error\<close>), which
      the specification calls \<open>InvalidInput\<close>.\<close>
  "isInvalidInput result =
     (case result of Inl (Error m) \<Rightarrow> True | Inl (RangeError m) \<Rightarrow> False | Inr r \<Rightarrow> False)"

definition utcEnv :: Env where
  \<comment> \<open>A host on UTC whose clock reads \<open>0\<close> all through the call; the sample \<open>1 / 2\<close>
      gives the random variation \<open>0\<close>.\<close>
  "utcEnv =
     \<lparr> tza = (\<lambda>t isUTC. 0), clock1 = 0, clock2 = 0, clock3 = 0, mathRandom = 1 / 2 \<rparr>"


definition springForwardZone :: TimeZone where
  \<comment> \<open>A zone on UTC until the instant \<open>12 h\<close>, when its clocks go forward by one hour. A
      local time in the skipped hour is read with the offset before the change.\<close>
  "springForwardZone t isUTC =
     (if isUTC then (if t < 43200000 then 0 else 3600000)
      else (if t < 46800000 then 0 else 3600000))"

definition dstEnv :: Env where
  \<comment> \<open>A host in that zone whose clock reads \<open>0\<close>, twelve hours before the change.\<close>
  "dstEnv = \<lparr> tza = springForwardZone, clock1 = 0, clock2 = 0, clock3 = 0, mathRandom = 0 \<rparr>"


section \<open>Properties\<close>

subsection \<open>Initialisation and reset\<close>

text \<open>
  Claim C7. \<^verbatim>\<open>initializeCard\<close> and \<^verbatim>\<open>resetCardProgress\<close> always produce
  \<open>interval = 1\<close>, \<open>easeFactor = 2.5\<close>, \<open>reviewCount = 0\<close>, \<open>masteryScore = 0\<close>, with
  \<open>nextReviewAt\<close> and \<open>lastReviewedAt\<close> set to \<open>now\<close>; \<^verbatim>\<open>resetCardProgress\<close> leaves every
  non-scheduling field of its input unchanged (and so does \<^verbatim>\<open>initializeCard\<close>).
\<close>

theorem initializeCard_resetCardProgress_fields:
  "more (initializeCard now b) =
     \<lparr> interval = 1, easeFactor = 2.5, reviewCount = 0, masteryScore = 0,
       nextReviewAt = Some now, lastReviewedAt = Some now \<rparr>
   \<and> more (resetCardProgress now c) =
     \<lparr> interval = 1, easeFactor = 2.5, reviewCount = 0, masteryScore = 0,
       nextReviewAt = Some now, lastReviewedAt = Some now \<rparr>
   \<and> WordData.truncate (resetCardProgress now c) = WordData.truncate c
   \<and> id' (resetCardProgress now c) = id' c
   \<and> word (resetCardProgress now c) = word c
   \<and> definition' (resetCardProgress now c) = definition' c
   \<and> difficulty (resetCardProgress now c) = difficulty c
   \<and> tags (resetCardProgress now c) = tags c
   \<and> WordData.truncate (initializeCard now b) = b"
  by (simp add: initializeCard_def resetCardProgress_def initialScheduling_def
      INITIAL_EASE_FACTOR_def WordData.defs)

subsection \<open>Dates\<close>

text \<open>
  On a host whose offset from UTC never changes, \<^verbatim>\<open>setDate\<close> adds whole days of
  \<open>24\<close> hours.
\<close>

lemma addDays_fixed_offset:
  assumes "\<forall>x b. tz x b = k"
  shows "addDays tz (Some t) n = TimeClip (t + real_of_int n * msPerDay)"
  using assms by (simp add: addDays_def LocalTime_def UTC_def)

text \<open>
  The final clamp: a date that \<^verbatim>\<open>calculateNextReviewDate\<close> returns is not before
  \<^verbatim>\<open>tomorrow\<close>, when \<^verbatim>\<open>tomorrow\<close> is a valid date.
\<close>

lemma calculateNextReviewDate_not_before_tomorrow:
  assumes "calculateNextReviewDate env n = Some t" and "tomorrowDate env = Some tm"
  shows "tm \<le> t"
  using assms
  by (auto simp add: calculateNextReviewDate_def dateLess_def Let_def
      split: if_splits option.splits)

lemma finalVariation_range: "finalVariation n u \<in> {- 1, 0, 1}"
  by (auto simp add: finalVariation_def Let_def min_def)

text \<open>
  The dates stay within the range of \<^verbatim>\<open>Date\<close>, so that \<^verbatim>\<open>toISOString\<close> does not
  throw, on every host whose time-zone offsets are at most a day, whose clock is within
  \<open>4e15\<close> ms of the epoch, and for every interval of at most fifty million days.
\<close>

lemma addDays_in_range:
  assumes tz: "\<forall>x b. \<bar>tz x b\<bar> \<le> msPerDay"
    and t: "\<bar>t\<bar> \<le> B" and n: "\<bar>real_of_int n\<bar> * msPerDay \<le> D"
    and r: "B + D + 2 * msPerDay \<le> 8640000000000000"
  shows "\<exists>t'. addDays tz (Some t) n = Some t' \<and> \<bar>t'\<bar> \<le> B + D + 2 * msPerDay"
proof -
  let ?l = "t + tz t True + real_of_int n * msPerDay"
  have a: "\<bar>tz t True\<bar> \<le> msPerDay" and b: "\<bar>tz ?l False\<bar> \<le> msPerDay"
    using tz by blast+
  have "\<bar>real_of_int n * msPerDay\<bar> = \<bar>real_of_int n\<bar> * msPerDay"
    by (simp add: abs_mult msPerDay_def)
  then have c: "\<bar>real_of_int n * msPerDay\<bar> \<le> D"
    using n by simp
  have "\<bar>?l - tz ?l False\<bar> \<le> B + D + 2 * msPerDay"
    using a b c t by linarith
  then show ?thesis
    using r by (simp add: addDays_def LocalTime_def UTC_def TimeClip_def)
qed

lemma dates_valid_on_a_sane_host:
  assumes tz: "\<forall>x b. \<bar>tza env x b\<bar> \<le> msPerDay"
    and c1: "\<bar>clock1 env\<bar> \<le> 4000000000000000"
    and n: "\<bar>n\<bar> \<le> 50000000"
  shows "calculateNextReviewDate env n \<noteq> None"
proof -
  have "\<bar>real_of_int n\<bar> \<le> 50000000"
    using n by linarith
  then have n': "\<bar>real_of_int n\<bar> * msPerDay \<le> 4320000000000000"
    by (simp add: msPerDay_def)
  obtain t1 where t1: "addDays (tza env) (Some (clock1 env)) n = Some t1"
    "\<bar>t1\<bar> \<le> 4000000000000000 + 4320000000000000 + 2 * msPerDay"
    using addDays_in_range [OF tz c1 n'] by (auto simp add: msPerDay_def)
  have "finalVariation n (mathRandom env) \<in> {- 1, 0, 1}"
    by (rule finalVariation_range)
  then have "\<bar>real_of_int (finalVariation n (mathRandom env))\<bar> * msPerDay \<le> msPerDay"
    by (auto simp add: msPerDay_def)
  from addDays_in_range [OF tz t1(2) this]
  obtain t2 where t2: "addDays (tza env) (Some t1) (finalVariation n (mathRandom env)) = Some t2"
    by (auto simp add: msPerDay_def)
  have j: "jitteredDate env n = Some t2"
    by (simp add: jitteredDate_def Let_def t1 t2)
  show ?thesis
    by (auto simp add: calculateNextReviewDate_def Let_def j dateLess_def
        split: option.splits)
qed

subsection \<open>What an accepted review returns\<close>

lemma calculateNextReview_accepts:
  assumes "0 \<le> quality" and "quality \<le> 5"
    and "0 \<le> masteryScore (more c)" and "masteryScore (more c) \<le> 100"
    and "calculateNextReviewDate env (newIntervalOf c quality) = Some t"
  shows "calculateNextReview env c quality =
     Inr \<lparr> interval = real_of_int (newIntervalOf c quality),
           easeFactor =
             toFixed2 (clampEaseFactor (easeFactor (more c) + calculateEaseFactorChange quality)),
           reviewCount = newReviewCountOf c quality,
           masteryScore =
             real_of_int (Math_round (min 100 (max 0
               (masteryScore (more c)
                  + calculateMasteryIncrement quality (masteryScore (more c)))))),
           nextReviewAt = Some t,
           lastReviewedAt = Some (clock3 env) \<rparr>"
  using assms by (simp add: calculateNextReview_def toISOString_def Let_def)

lemma toFixed2_clampEaseFactor_bounds:
  "1.3 \<le> toFixed2 (clampEaseFactor e) \<and> toFixed2 (clampEaseFactor e) \<le> 2.5"
proof -
  let ?x = "clampEaseFactor e"
  have lo: "13 / 10 \<le> ?x" and hi: "?x \<le> 5 / 2"
    by (simp_all add: clampEaseFactor_def MIN_EASE_FACTOR_def MAX_EASE_FACTOR_def)
  have "130 \<le> \<lfloor>?x * 100 + 1 / 2\<rfloor>"
    using lo by (simp add: le_floor_iff)
  moreover have "\<lfloor>?x * 100 + 1 / 2\<rfloor> \<le> 250"
    using hi by (simp add: floor_le_iff)
  ultimately have "130 \<le> real_of_int \<lfloor>?x * 100 + 1 / 2\<rfloor>"
    and "real_of_int \<lfloor>?x * 100 + 1 / 2\<rfloor> \<le> 250"
    by linarith+
  then show ?thesis
    by (simp add: toFixed2_def)
qed

lemma newIntervalOf_ge_1:
  assumes "1 \<le> interval (more c)" and "1.3 \<le> easeFactor (more c)"
  shows "1 \<le> newIntervalOf c quality"
proof -
  have "1 * 1 \<le> interval (more c) * easeFactor (more c)"
    using assms by (intro mult_mono) simp_all
  then have "1 \<le> Math_round (interval (more c) * easeFactor (more c))"
    by (simp add: Math_round_def le_floor_iff)
  then show ?thesis
    by (simp add: newIntervalOf_def)
qed

lemma Math_round_clamped:
  "0 \<le> Math_round (min 100 (max 0 x)) \<and> Math_round (min 100 (max 0 x)) \<le> 100"
proof -
  have "0 \<le> min 100 (max 0 x)" and "min 100 (max 0 x) \<le> 100"
    by simp_all
  then show ?thesis
    unfolding Math_round_def by (simp add: le_floor_iff floor_le_iff)
qed

lemmas evaluate_review =
  calculateNextReview_def newIntervalOf_def newReviewCountOf_def
  calculateEaseFactorChange_def clampEaseFactor_def calculateMasteryIncrement_def
  calculateNextReviewDate_def jitteredDate_def tomorrowDate_def finalVariation_def
  addDays_def LocalTime_def UTC_def TimeClip_def dateLess_def toISOString_def
  Math_round_def toFixed2_def msPerDay_def MIN_EASE_FACTOR_def MAX_EASE_FACTOR_def
  MASTERY_INCREMENT_def exampleCard_def WordData.defs Let_def

subsection \<open>Invariant preservation\<close>

text \<open>
  Claim C1, as the specification states it, ends with: \<open>nextReviewAt\<close> is at least one
  full day after now. \<^verbatim>\<open>calculateNextReviewDate\<close> moves dates with \<^verbatim>\<open>setDate\<close>, by days
  of the host's local calendar, and its clamp is to \<^verbatim>\<open>tomorrow\<close>, the same local time
  on the next calendar day. On a host whose clocks go forward by an hour within that
  day, a valid card reviewed with quality \<open>2\<close> at time \<open>0\<close> gets the next review date
  \<open>82800000\<close>, which is \<open>23\<close> hours after every clock reading of the call.
\<close>

theorem next_review_under_a_day_after_now:
  "1.3 \<le> easeFactor (more exampleCard) \<and> easeFactor (more exampleCard) \<le> 2.5
   \<and> 0 \<le> masteryScore (more exampleCard) \<and> masteryScore (more exampleCard) \<le> 100
   \<and> 1 \<le> interval (more exampleCard) \<and> (0::real) \<le> 2 \<and> (2::real) \<le> 5
   \<and> calculateNextReview dstEnv exampleCard 2 =
       Inr \<lparr> interval = 1, easeFactor = 2.35, reviewCount = 0, masteryScore = 28,
             nextReviewAt = Some 82800000, lastReviewedAt = Some 0 \<rparr>
   \<and> (82800000::real) < clock1 dstEnv + msPerDay
   \<and> (82800000::real) < clock2 dstEnv + msPerDay
   \<and> (82800000::real) < clock3 dstEnv + msPerDay"
  by (simp add: evaluate_review dstEnv_def springForwardZone_def)

text \<open>
  Claim C1, amended. For every card with \<open>easeFactor\<close> in \<open>[1.3, 2.5]\<close>, \<open>masteryScore\<close>
  in \<open>[0, 100]\<close> and \<open>interval \<ge> 1\<close>, every quality in \<open>[0, 5]\<close> and every random sample,
  on a host where the next review date is within the range of \<^verbatim>\<open>Date\<close> (the call throws
  a \<^verbatim>\<open>RangeError\<close> otherwise), \<^verbatim>\<open>calculateNextReview\<close> returns fields with \<open>easeFactor\<close>
  in \<open>[1.3, 2.5]\<close>, \<open>masteryScore\<close> an integer in \<open>[0, 100]\<close>, \<open>interval \<ge> 1\<close> (a whole
  number), and \<open>nextReviewAt\<close> not before \<^verbatim>\<open>tomorrow\<close>: the clock reading taken for the
  clamp, moved one day of the local calendar ahead. On a host whose offset from UTC
  never changes that is at least \<open>24\<close> hours after that reading, and after the first
  reading too when the clock has not gone back between them. (No bound is stated
  against the third reading, which becomes \<open>lastReviewedAt\<close>.)
\<close>

theorem calculateNextReview_preserves_invariants:
  assumes "1.3 \<le> easeFactor (more c)" and "easeFactor (more c) \<le> 2.5"
    and "0 \<le> masteryScore (more c)" and "masteryScore (more c) \<le> 100"
    and "1 \<le> interval (more c)"
    and "0 \<le> quality" and "quality \<le> 5"
    and "calculateNextReviewDate env (newIntervalOf c quality) \<noteq> None"
  shows "\<exists>r t. calculateNextReview env c quality = Inr r
     \<and> 1.3 \<le> easeFactor r \<and> easeFactor r \<le> 2.5
     \<and> masteryScore r \<in> \<int> \<and> 0 \<le> masteryScore r \<and> masteryScore r \<le> 100
     \<and> interval r \<in> \<int> \<and> 1 \<le> interval r
     \<and> nextReviewAt r = Some t
     \<and> (\<forall>tm. tomorrowDate env = Some tm \<longrightarrow> tm \<le> t)
     \<and> ((\<forall>x b. tza env x b = k) \<and> \<bar>clock2 env + msPerDay\<bar> \<le> 8640000000000000
          \<longrightarrow> clock2 env + msPerDay \<le> t)
     \<and> ((\<forall>x b. tza env x b = k) \<and> \<bar>clock2 env + msPerDay\<bar> \<le> 8640000000000000
          \<and> clock1 env \<le> clock2 env
          \<longrightarrow> clock1 env + msPerDay \<le> t)"
proof -
  from assms(8) obtain t where t: "calculateNextReviewDate env (newIntervalOf c quality) = Some t"
    by blast
  note eq = calculateNextReview_accepts [OF assms(6,7,3,4) t]
  let ?m = "masteryScore (more c) + calculateMasteryIncrement quality (masteryScore (more c))"
  have i: "1 \<le> real_of_int (newIntervalOf c quality)"
    using newIntervalOf_ge_1 [OF assms(5,1), of quality] by linarith
  have m: "0 \<le> real_of_int (Math_round (min 100 (max 0 ?m)))"
    "real_of_int (Math_round (min 100 (max 0 ?m))) \<le> 100"
    using Math_round_clamped [of ?m] by linarith+
  have tm: "tm \<le> t" if "tomorrowDate env = Some tm" for tm
    using calculateNextReviewDate_not_before_tomorrow [OF t that] .
  have fixed: "clock2 env + msPerDay \<le> t"
    if "\<forall>x b. tza env x b = k" and "\<bar>clock2 env + msPerDay\<bar> \<le> 8640000000000000"
  proof -
    have "tomorrowDate env = Some (clock2 env + msPerDay)"
      using that by (simp add: tomorrowDate_def addDays_fixed_offset [OF that(1)] TimeClip_def)
    then show ?thesis
      by (rule tm)
  qed
  show ?thesis
    unfolding eq
    using i m tm fixed
      toFixed2_clampEaseFactor_bounds [of "easeFactor (more c) + calculateEaseFactorChange quality"]
    by auto
qed

theorem calculateNextReview_preserves_invariants_witness:
  "1.3 \<le> easeFactor (more exampleCard) \<and> easeFactor (more exampleCard) \<le> 2.5
   \<and> 0 \<le> masteryScore (more exampleCard) \<and> masteryScore (more exampleCard) \<le> 100
   \<and> 1 \<le> interval (more exampleCard) \<and> (0::real) \<le> 4 \<and> (4::real) \<le> 5
   \<and> calculateNextReviewDate utcEnv (newIntervalOf exampleCard 4) \<noteq> None
   \<and> tomorrowDate utcEnv = Some msPerDay
   \<and> (\<forall>x b. tza utcEnv x b = 0) \<and> \<bar>clock2 utcEnv + msPerDay\<bar> \<le> 8640000000000000
   \<and> clock1 utcEnv \<le> clock2 utcEnv
   \<and> (\<exists>r t. calculateNextReview utcEnv exampleCard 4 = Inr r
     \<and> 1.3 \<le> easeFactor r \<and> easeFactor r \<le> 2.5
     \<and> masteryScore r \<in> \<int> \<and> 0 \<le> masteryScore r \<and> masteryScore r \<le> 100
     \<and> interval r \<in> \<int> \<and> 1 \<le> interval r
     \<and> nextReviewAt r = Some t \<and> msPerDay \<le> t
     \<and> clock2 utcEnv + msPerDay \<le> t \<and> clock1 utcEnv + msPerDay \<le> t)"
proof -
  have h: "1.3 \<le> easeFactor (more exampleCard)" "easeFactor (more exampleCard) \<le> 2.5"
    "0 \<le> masteryScore (more exampleCard)" "masteryScore (more exampleCard) \<le> 100"
    "1 \<le> interval (more exampleCard)" "(0::real) \<le> 4" "(4::real) \<le> 5"
    "calculateNextReviewDate utcEnv (newIntervalOf exampleCard 4) \<noteq> None"
    by (simp_all add: evaluate_review utcEnv_def)
  have e: "tomorrowDate utcEnv = Some msPerDay" "\<forall>x b. tza utcEnv x b = 0"
    "\<bar>clock2 utcEnv + msPerDay\<bar> \<le> 8640000000000000" "clock1 utcEnv \<le> clock2 utcEnv"
    by (simp_all add: tomorrowDate_def addDays_def LocalTime_def UTC_def TimeClip_def
        utcEnv_def msPerDay_def)
  show ?thesis
    using h e calculateNextReview_preserves_invariants [OF h, of 0] by auto
qed

subsection \<open>Failure resets\<close>

text \<open>
  Claim C3. For every card with \<open>reviewCount = N > 0\<close> (whatever its interval and ease
  factor, and whatever mastery score a card can have, that is one in \<open>[0, 100]\<close>) and
  every quality in \<open>{0, 1, 2}\<close>, \<^verbatim>\<open>calculateNextReview\<close> returns \<open>reviewCount = 0\<close> and
  \<open>interval = 1\<close>. The host is one where the next day's review date is a valid
  \<^verbatim>\<open>Date\<close>, as it is wherever the clock is within range (lemma
  \<open>dates_valid_on_a_sane_host\<close>).
\<close>

theorem failed_review_resets:
  assumes "0 < reviewCount (more c)" and "quality \<in> {0, 1, 2}"
    and "0 \<le> masteryScore (more c)" and "masteryScore (more c) \<le> 100"
    and "calculateNextReviewDate env 1 \<noteq> None"
  shows "\<exists>r. calculateNextReview env c quality = Inr r
     \<and> reviewCount r = 0 \<and> interval r = 1"
proof -
  from assms(2) have q: "0 \<le> quality" "quality \<le> 5" "quality < 3"
    by auto
  then have n: "newIntervalOf c quality = 1"
    by (simp add: newIntervalOf_def)
  with assms(5) obtain t where "calculateNextReviewDate env (newIntervalOf c quality) = Some t"
    by auto
  from calculateNextReview_accepts [OF q(1,2) assms(3,4) this] show ?thesis
    using q(3) by (simp add: newIntervalOf_def newReviewCountOf_def)
qed

theorem failed_review_resets_witness:
  "0 < reviewCount (more exampleCard) \<and> (2::real) \<in> {0, 1, 2}
   \<and> 0 \<le> masteryScore (more exampleCard) \<and> masteryScore (more exampleCard) \<le> 100
   \<and> calculateNextReviewDate utcEnv 1 \<noteq> None
   \<and> (\<exists>r. calculateNextReview utcEnv exampleCard 2 = Inr r
     \<and> reviewCount r = 0 \<and> interval r = 1)"
proof -
  have h: "0 < reviewCount (more exampleCard)" "(2::real) \<in> {0, 1, 2}"
    "0 \<le> masteryScore (more exampleCard)" "masteryScore (more exampleCard) \<le> 100"
    "calculateNextReviewDate utcEnv 1 \<noteq> None"
    by (simp_all add: evaluate_review utcEnv_def)
  show ?thesis
    using h failed_review_resets [OF h] by simp
qed

subsection \<open>Growth sequencing\<close>

text \<open>
  Claim C4. Starting from a freshly initialised card (\<open>interval = 1\<close>,
  \<open>easeFactor = 2.5\<close>, \<open>reviewCount = 0\<close>), three consecutive reviews with quality \<open>5\<close>,
  each merged into the card before the next, yield the intervals \<open>1\<close>, \<open>6\<close>, \<open>15\<close>, the ease
  factor \<open>2.5\<close> every time, and the review counts \<open>1\<close>, \<open>2\<close>, \<open>3\<close>; this in any three
  environments (clock readings, time zones, random samples) where the review dates
  \<open>1\<close>, \<open>6\<close> and \<open>15\<close> days ahead are valid \<^verbatim>\<open>Date\<close>s.
\<close>

theorem three_perfect_reviews:
  assumes "calculateNextReviewDate env1 1 \<noteq> None"
    and "calculateNextReviewDate env2 6 \<noteq> None"
    and "calculateNextReviewDate env3 15 \<noteq> None"
  shows "\<exists>r1 r2 r3.
     calculateNextReview env1 (initializeCard n0 b) 5 = Inr r1
   \<and> calculateNextReview env2 (mergeUpdate (initializeCard n0 b) r1) 5 = Inr r2
   \<and> calculateNextReview env3
        (mergeUpdate (mergeUpdate (initializeCard n0 b) r1) r2) 5 = Inr r3
   \<and> interval r1 = 1 \<and> interval r2 = 6 \<and> interval r3 = 15
   \<and> easeFactor r1 = 2.5 \<and> easeFactor r2 = 2.5 \<and> easeFactor r3 = 2.5
   \<and> reviewCount r1 = 1 \<and> reviewCount r2 = 2 \<and> reviewCount r3 = 3"
proof -
  from assms obtain t1 t2 t3 where t:
    "calculateNextReviewDate env1 1 = Some t1"
    "calculateNextReviewDate env2 6 = Some t2"
    "calculateNextReviewDate env3 15 = Some t3"
    by auto
  show ?thesis
    by (simp add: calculateNextReview_def newIntervalOf_def newReviewCountOf_def
        calculateEaseFactorChange_def clampEaseFactor_def calculateMasteryIncrement_def
        Math_round_def toFixed2_def MIN_EASE_FACTOR_def MAX_EASE_FACTOR_def
        MASTERY_INCREMENT_def initializeCard_def mergeUpdate_def initialScheduling_def
        INITIAL_EASE_FACTOR_def toISOString_def WordData.defs Let_def t)
qed

theorem three_perfect_reviews_witness:
  "calculateNextReviewDate utcEnv 1 \<noteq> None
   \<and> calculateNextReviewDate utcEnv 6 \<noteq> None
   \<and> calculateNextReviewDate utcEnv 15 \<noteq> None
   \<and> (\<exists>r1 r2 r3.
     calculateNextReview utcEnv (initializeCard 0 exampleData) 5 = Inr r1
   \<and> calculateNextReview utcEnv (mergeUpdate (initializeCard 0 exampleData) r1) 5 = Inr r2
   \<and> calculateNextReview utcEnv
        (mergeUpdate (mergeUpdate (initializeCard 0 exampleData) r1) r2) 5 = Inr r3
   \<and> interval r1 = 1 \<and> interval r2 = 6 \<and> interval r3 = 15
   \<and> easeFactor r1 = 2.5 \<and> easeFactor r2 = 2.5 \<and> easeFactor r3 = 2.5
   \<and> reviewCount r1 = 1 \<and> reviewCount r2 = 2 \<and> reviewCount r3 = 3)"
proof -
  have h: "calculateNextReviewDate utcEnv 1 \<noteq> None"
    "calculateNextReviewDate utcEnv 6 \<noteq> None"
    "calculateNextReviewDate utcEnv 15 \<noteq> None"
    by (simp_all add: evaluate_review utcEnv_def)
  show ?thesis
    using h three_perfect_reviews [OF h, of 0 exampleData] by simp
qed

subsection \<open>The mastery-score update\<close>

lemma Math_round_eq_round: "real_of_int (Math_round x) = real_of_int (round x)"
  by (simp add: Math_round_def round_def)

lemma clamp_orders_agree: "min (100::real) (max 0 x) = max 0 (min 100 x)"
  by (simp add: min_def max_def)

text \<open>
  Claim C5. For every valid card and every quality in \<open>[0, 5]\<close>, the mastery delta is
  \<open>- 20 * max 0.3 (1 - masteryScore / 100)\<close> when \<open>quality < 3\<close> and
  \<open>20 * (quality / 5) * (1 - (masteryScore / 100) * 0.7)\<close> otherwise, and the returned
  \<open>masteryScore\<close> is the input \<open>masteryScore\<close> plus this delta, clamped to \<open>[0, 100]\<close> and
  rounded to the nearest integer. (The call returns where the next review date is a
  valid \<^verbatim>\<open>Date\<close>.)
\<close>

theorem mastery_update_formula:
  assumes "1.3 \<le> easeFactor (more c)" and "easeFactor (more c) \<le> 2.5"
    and "0 \<le> masteryScore (more c)" and "masteryScore (more c) \<le> 100"
    and "1 \<le> interval (more c)"
    and "0 \<le> quality" and "quality \<le> 5"
    and "calculateNextReviewDate env (newIntervalOf c quality) \<noteq> None"
  shows "calculateMasteryIncrement quality (masteryScore (more c)) =
       (if quality < 3 then - 20 * max 0.3 (1 - masteryScore (more c) / 100)
        else 20 * (quality / 5) * (1 - (masteryScore (more c) / 100) * 0.7))
     \<and> (\<exists>r. calculateNextReview env c quality = Inr r
          \<and> masteryScore r =
              spec_storedMastery
                (masteryScore (more c)
                   + calculateMasteryIncrement quality (masteryScore (more c))))"
proof -
  from assms(8) obtain t where t: "calculateNextReviewDate env (newIntervalOf c quality) = Some t"
    by blast
  have "calculateMasteryIncrement quality (masteryScore (more c)) =
       (if quality < 3 then - 20 * max 0.3 (1 - masteryScore (more c) / 100)
        else 20 * (quality / 5) * (1 - (masteryScore (more c) / 100) * 0.7))"
    by (simp add: calculateMasteryIncrement_def MASTERY_INCREMENT_def Let_def)
  then show ?thesis
    unfolding calculateNextReview_accepts [OF assms(6,7,3,4) t]
    by (simp add: spec_storedMastery_def Math_round_eq_round clamp_orders_agree)
qed

theorem mastery_update_formula_witness:
  "1.3 \<le> easeFactor (more exampleCard) \<and> easeFactor (more exampleCard) \<le> 2.5
   \<and> 0 \<le> masteryScore (more exampleCard) \<and> masteryScore (more exampleCard) \<le> 100
   \<and> 1 \<le> interval (more exampleCard) \<and> (0::real) \<le> 4 \<and> (4::real) \<le> 5
   \<and> calculateNextReviewDate utcEnv (newIntervalOf exampleCard 4) \<noteq> None
   \<and> calculateMasteryIncrement 4 (masteryScore (more exampleCard)) = 11.52
   \<and> (\<exists>r. calculateNextReview utcEnv exampleCard 4 = Inr r \<and> masteryScore r = 52)"
proof -
  have h: "1.3 \<le> easeFactor (more exampleCard)" "easeFactor (more exampleCard) \<le> 2.5"
    "0 \<le> masteryScore (more exampleCard)" "masteryScore (more exampleCard) \<le> 100"
    "1 \<le> interval (more exampleCard)" "(0::real) \<le> 4" "(4::real) \<le> 5"
    "calculateNextReviewDate utcEnv (newIntervalOf exampleCard 4) \<noteq> None"
    by (simp_all add: evaluate_review utcEnv_def)
  have m: "masteryScore (more exampleCard) = 40"
    by (simp add: exampleCard_def WordData.defs)
  note t = mastery_update_formula [OF h]
  from t have inc: "calculateMasteryIncrement 4 (masteryScore (more exampleCard)) = 11.52"
    by (simp add: m)
  from t obtain r where r: "calculateNextReview utcEnv exampleCard 4 = Inr r"
    "masteryScore r =
       spec_storedMastery
         (masteryScore (more exampleCard)
            + calculateMasteryIncrement 4 (masteryScore (more exampleCard)))"
    by blast
  have "masteryScore r = 52"
    unfolding r(2) inc by (simp add: m spec_storedMastery_def round_def)
  with h inc r(1) show ?thesis
    by simp
qed

subsection \<open>Input validation\<close>

text \<open>
  Claim C2, as the specification states it: \<^verbatim>\<open>calculateNextReview\<close> fails with an
  \<open>InvalidInput\<close> error exactly when the quality is not an integer in \<open>[0, 5]\<close> or the
  card's \<open>masteryScore\<close> is outside \<open>[0, 100]\<close>. The run-time check of the quality is a
  range check only (\<^verbatim>\<open>quality < 0 || quality > 5\<close>); that the quality is a whole number
  is left to the parameter's static type \<^verbatim>\<open>0 | 1 | 2 | 3 | 4 | 5\<close>. The quality \<open>2.5\<close> is
  not an integer in \<open>[0, 5]\<close>, and the call returns a result: it is scored as a failed
  recall with no change of the ease factor.
\<close>

theorem noninteger_quality_accepted:
  "\<not> spec_qualityValid (5 / 2)
   \<and> 0 \<le> masteryScore (more exampleCard) \<and> masteryScore (more exampleCard) \<le> 100
   \<and> calculateNextReview utcEnv exampleCard (5 / 2) =
       Inr \<lparr> interval = 1, easeFactor = 2.5, reviewCount = 0, masteryScore = 28,
             nextReviewAt = Some 86400000, lastReviewedAt = Some 0 \<rparr>
   \<and> \<not> isInvalidInput (calculateNextReview utcEnv exampleCard (5 / 2))"
  by (simp add: spec_qualityValid_def evaluate_review utcEnv_def isInvalidInput_def)

text \<open>
  Claim C2, amended. \<^verbatim>\<open>calculateNextReview\<close> fails with an \<open>InvalidInput\<close> error (a
  plain \<^verbatim>\<open>Error\<close> that names the quality rating or the mastery score) exactly when
  \<open>quality < 0\<close> or \<open>quality > 5\<close>, or the input card's \<open>masteryScore\<close> is outside
  \<open>[0, 100]\<close>. The quality is checked first and the mastery score second, both before
  any computation, and on failure no partial update is applied: the result is the error
  alone, with no result fields, and the input card is unchanged (the function is pure:
  the source copies the card and assigns to no field of either copy).

  The last two conjuncts say what happens when both checks pass: the call returns
  fields when the next review date is a valid \<^verbatim>\<open>Date\<close>, and otherwise
  \<^verbatim>\<open>toISOString\<close> throws a \<^verbatim>\<open>RangeError\<close>, which is not an \<open>InvalidInput\<close> error.
\<close>

theorem calculateNextReview_fails_iff:
  "isInvalidInput (calculateNextReview env c quality)
     = (quality < 0 \<or> 5 < quality
        \<or> masteryScore (more c) < 0 \<or> 100 < masteryScore (more c))
   \<and> (calculateNextReview env c quality
      = Inl (Error ''Quality rating must be between 0 and 5''))
     = (quality < 0 \<or> 5 < quality)
   \<and> (calculateNextReview env c quality
      = Inl (Error ''Mastery score must be between 0 and 100''))
     = (0 \<le> quality \<and> quality \<le> 5
        \<and> (masteryScore (more c) < 0 \<or> 100 < masteryScore (more c)))
   \<and> (calculateNextReview env c quality = Inl (RangeError ''Invalid time value''))
     = (0 \<le> quality \<and> quality \<le> 5
        \<and> 0 \<le> masteryScore (more c) \<and> masteryScore (more c) \<le> 100
        \<and> calculateNextReviewDate env (newIntervalOf c quality) = None)
   \<and> (\<exists>r. calculateNextReview env c quality = Inr r)
     = (0 \<le> quality \<and> quality \<le> 5
        \<and> 0 \<le> masteryScore (more c) \<and> masteryScore (more c) \<le> 100
        \<and> calculateNextReviewDate env (newIntervalOf c quality) \<noteq> None)"
  by (auto simp add: calculateNextReview_def isInvalidInput_def toISOString_def Let_def
      split: option.splits)

subsection \<open>Priority ranking\<close>






subsection \<open>The daily goal\<close>

text \<open>
  Claim C9. For \<open>totalWords \<ge> 0\<close>, \<open>dueWords \<ge> 0\<close>, \<open>averageStudyTime \<ge> 0\<close>,
  \<open>availableTime \<ge> 0\<close> and \<open>averageAccuracy\<close> in \<open>[0, 100]\<close>, \<^verbatim>\<open>calculateDailyGoal\<close>
  returns an integer in \<open>[10, 100]\<close>; with \<open>totalWords = 0\<close> it returns the default \<open>20\<close>.
  The last two conjuncts record that on these inputs the divisor
  \<^verbatim>\<open>averageStudyTime || 30\<close> is positive and the argument of \<^verbatim>\<open>Math.log10\<close> is at least
  \<open>1\<close>, so that the number which is rounded and clamped is a finite one.
\<close>

theorem calculateDailyGoal_range:
  assumes "0 \<le> totalWords" and "0 \<le> dueWords" and "0 \<le> averageStudyTime"
    and "0 \<le> availableTime" and "0 \<le> averageAccuracy" and "averageAccuracy \<le> 100"
  shows "10 \<le> calculateDailyGoal totalWords dueWords averageStudyTime availableTime
                 averageAccuracy
     \<and> calculateDailyGoal totalWords dueWords averageStudyTime availableTime
          averageAccuracy \<le> 100
     \<and> calculateDailyGoal 0 dueWords averageStudyTime availableTime averageAccuracy = 20
     \<and> 0 < (if averageStudyTime = 0 then 30 else averageStudyTime)
     \<and> 1 \<le> totalWords + 1"
  using assms by (simp add: calculateDailyGoal_def Let_def)

theorem calculateDailyGoal_range_witness:
  "(0::real) \<le> 9 \<and> (0::real) \<le> 5 \<and> (0::real) \<le> 30 \<and> (0::real) \<le> 10
   \<and> (0::real) \<le> 80 \<and> (80::real) \<le> 100
   \<and> 10 \<le> calculateDailyGoal 9 5 30 10 80
   \<and> calculateDailyGoal 9 5 30 10 80 \<le> 100
   \<and> calculateDailyGoal 0 5 30 10 80 = 20"
proof -
  have h: "(0::real) \<le> 9" "(0::real) \<le> 5" "(0::real) \<le> 30" "(0::real) \<le> 10"
    "(0::real) \<le> 80" "(80::real) \<le> 100"
    by simp_all
  show ?thesis
    using calculateDailyGoal_range [OF h] by simp
qed

subsection \<open>The jitter of the next review date\<close>





subsection \<open>The time-to-mastery estimate\<close>

text \<open>
  With a positive accuracy the estimate is the finite pair that the specification
  describes.
\<close>

lemma estimateTimeToMastery_positive_accuracy:
  assumes "0 \<le> currentMastery" and "currentMastery < 95"
    and "0 < averageAccuracy" and "averageAccuracy \<le> 100" and "1 \<le> reviewsPerDay"
  shows "estimateTimeToMastery currentMastery averageAccuracy reviewsPerDay =
     \<lparr> days = Finite (real_of_int \<lceil>real_of_int
              \<lceil>(100 - currentMastery)
                 / ((averageAccuracy / 100) * 15 * (1 - (currentMastery / 100) * 0.5))\<rceil>
              / reviewsPerDay\<rceil>),
       reviews = Finite (real_of_int
              \<lceil>(100 - currentMastery)
                 / ((averageAccuracy / 100) * 15 * (1 - (currentMastery / 100) * 0.5))\<rceil>) \<rparr>"
  using assms
  by (simp add: estimateTimeToMastery_def js_div_def jsnum_div_def Math_ceil_def Let_def)

lemma estimateTimeToMastery_mastered:
  "95 \<le> currentMastery \<Longrightarrow>
     estimateTimeToMastery currentMastery averageAccuracy reviewsPerDay =
       \<lparr> days = Finite 0, reviews = Finite 0 \<rparr>"
  by (simp add: estimateTimeToMastery_def)

text \<open>
  Claim C8 says that for every \<open>currentMastery\<close> in \<open>[0, 100]\<close>, \<open>averageAccuracy\<close> in
  \<open>[0, 100]\<close> and \<open>reviewsPerDay \<ge> 1\<close> the estimate is a finite pair, the case
  \<open>averageAccuracy = 0\<close> included. At \<open>currentMastery = 50\<close>, \<open>averageAccuracy = 0\<close> and
  \<open>reviewsPerDay = 10\<close> the function divides the \<open>50\<close> points needed by a gain of zero:
  both fields of the result are \<^verbatim>\<open>Infinity\<close>.
\<close>

theorem estimateTimeToMastery_zero_accuracy:
  "estimateTimeToMastery 50 0 10 = \<lparr> days = PosInfinity, reviews = PosInfinity \<rparr>
   \<and> \<not> isFinite (days (estimateTimeToMastery 50 0 10))
   \<and> \<not> isFinite (reviews (estimateTimeToMastery 50 0 10))"
  by (simp add: estimateTimeToMastery_def js_div_def jsnum_div_def Math_ceil_def
      isFinite_def Let_def)

end
